theory Spec2Isabelle
  imports Main
begin

section \<open>Go values used by pkg/docsonnet/load.go\<close>

text \<open>
  A Go \<open>string\<close> and a \<open>[]byte\<close> are byte sequences: both are \<open>string\<close> (a list of
  8-bit characters) here.
\<close>

type_synonym bytes = string

text \<open>
  Go's \<open>error\<close> values. \<open>Errorf msg\<close> is the value of \<open>fmt.Errorf\<close> with the formatted
  message \<open>msg\<close>; \<open>ReadFileError name\<close> is what \<open>embed.FS.ReadFile\<close> returns for a name
  it cannot read; \<open>ImportNoMatch path\<close> is the error of go-jsonnet's file importer when no
  directory holds \<open>path\<close> (its message quotes the path and ends in \<open>no match locally or
  in the Jsonnet library paths\<close>); \<open>LibraryError msg\<close> is any other error made inside
  encoding/json, go-jsonnet or the operating system. A nil error is
  \<open>None :: go_error option\<close>.
\<close>

datatype go_error =
  Errorf string | ReadFileError string | ImportNoMatch string | LibraryError string

text \<open>
  How a Go call ends: it returns, or the process is terminated by \<open>log.Fatalln\<close> (which
  prints the error and calls \<open>os.Exit(1)\<close>), or it panics.
\<close>

datatype 'r ending = Returns 'r | Fatal go_error | Panics

definition dquote :: char where
  "dquote = CHR 0x22"

subsection \<open>strings.HasPrefix\<close>

text \<open>\<^verbatim>\<open>return len(s) >= len(prefix) && s[:len(prefix)] == prefix\<close>\<close>

definition HasPrefix :: "string \<Rightarrow> string \<Rightarrow> bool" where
  "HasPrefix s pre = (length pre \<le> length s \<and> take (length pre) s = pre)"

subsection \<open>path/filepath, with the separator of Unix\<close>

definition IsPathSeparator :: "char \<Rightarrow> bool" where
  "IsPathSeparator c = (c = CHR ''/'')"

text \<open>
  \<open>filepath.Base\<close>: the empty path gives \<open>"."\<close>; trailing separators are stripped; what
  follows the last separator is returned, and \<open>"/"\<close> when nothing is left (the path held
  separators only).
\<close>

definition Base :: "string \<Rightarrow> string" where
  "Base path =
     (if path = [] then ''.''
      else
        let stripped = rev (dropWhile IsPathSeparator (rev path));
            last_elem = rev (takeWhile (\<lambda>c. \<not> IsPathSeparator c) (rev stripped))
        in if last_elem = [] then ''/'' else last_elem)"

text \<open>
  \<open>filepath.Clean\<close> reads the path element by element. \<open>elems\<close> cuts a path at its
  separators (an empty element stands between two adjacent separators). \<open>clean_step\<close> is
  one round of Clean's loop on the elements kept so far: an empty element and \<open>"."\<close> are
  dropped; \<open>".."\<close> removes the last kept element when that is a real name, is kept itself
  when the path is not rooted and there is nothing to remove, and is dropped at the root;
  any other element is kept. The kept elements are joined by single separators, after the
  leading separator of a rooted path, and an empty result becomes \<open>"."\<close>.
\<close>

fun elems :: "string \<Rightarrow> string list" where
  "elems [] = [[]]"
| "elems (c # cs) =
     (if IsPathSeparator c then [] # elems cs
      else (case elems cs of [] \<Rightarrow> [[c]] | e # es \<Rightarrow> (c # e) # es))"

definition clean_step :: "bool \<Rightarrow> string list \<Rightarrow> string \<Rightarrow> string list" where
  "clean_step rooted kept e =
     (if e = [] \<or> e = ''.'' then kept
      else if e = ''..'' then
        (if kept \<noteq> [] \<and> last kept \<noteq> ''..'' then butlast kept
         else if \<not> rooted then kept @ [''..'']
         else kept)
      else kept @ [e])"

fun strings_Join :: "string list \<Rightarrow> string \<Rightarrow> string" where
  "strings_Join [] sep = []"
| "strings_Join [e] sep = e"
| "strings_Join (e # es) sep = e @ sep @ strings_Join es sep"

definition Clean :: "string \<Rightarrow> string" where
  "Clean path =
     (let rooted = (path \<noteq> [] \<and> IsPathSeparator (hd path));
          kept = foldl (clean_step rooted) [] (elems path);
          out = (if rooted then ''/'' else []) @ strings_Join kept ''/''
      in if out = [] then ''.'' else out)"

text \<open>
  \<open>filepath.Join\<close>: leading empty elements are ignored; the rest is joined with the
  separator and cleaned; no non-empty element gives the empty string.
\<close>

fun Join :: "string list \<Rightarrow> string" where
  "Join [] = []"
| "Join (e # es) = (if e \<noteq> [] then Clean (strings_Join (e # es) ''/'') else Join es)"

subsection \<open>embed.FS\<close>

text \<open>
  The embedded file system, as the regular files it holds by name. \<open>ReadFile\<close> returns the
  content of a file and an error for any other name.
\<close>

type_synonym embed_FS = "string \<rightharpoonup> string"

definition ReadFile :: "embed_FS \<Rightarrow> string \<Rightarrow> go_error + string" where
  "ReadFile fsys name =
     (case fsys name of None \<Rightarrow> Inl (ReadFileError name) | Some content \<Rightarrow> Inr content)"

record Opts =
  JPath :: "string list"
  EmbeddedFS :: embed_FS

subsection \<open>go-jsonnet: Contents, FileImporter, VM\<close>

text \<open>
  \<open>jsonnet.Contents\<close> holds a pointer to the text: \<open>MakeContents s\<close> points at \<open>s\<close>, the
  zero value \<open>jsonnet.Contents{}\<close> holds nil.
\<close>

datatype Contents = Contents "string option"

definition MakeContents :: "string \<Rightarrow> Contents" where
  "MakeContents s = Contents (Some s)"

definition zero_Contents :: Contents where
  "zero_Contents = Contents None"

record FileImporter =
  JPaths :: "string list"

text \<open>
  What an \<open>Import\<close> method returns: \<open>(contents, foundAt, err)\<close>.
\<close>

type_synonym import_result = "Contents \<times> string \<times> go_error option"

definition foundAt :: "import_result \<Rightarrow> string" where
  "foundAt r = fst (snd r)"

text \<open>
  \<open>jsonnet.FileImporter.Import\<close> is code of the go-jsonnet library, which reads the
  disk. In the importer of load.go it is a parameter: a function of the receiver (its
  search paths), \<open>importedFrom\<close> and \<open>importedPath\<close>. Every call that load.go makes to it
  is recorded as a \<open>FiImport\<close> event.
\<close>

type_synonym file_import = "FileImporter \<Rightarrow> string \<Rightarrow> string \<Rightarrow> import_result"

datatype fi_call = FiImport FileImporter string string

subsection \<open>go-jsonnet: the file importer over a disk\<close>

text \<open>
  The library's \<open>FileImporter.Import\<close> (go-jsonnet, imports.go), over a disk that does
  not change during the call. The disk says for a path that no file is there (\<open>None\<close>),
  that reading it fails for another reason, or what the file holds. The importer's cache
  of paths already read is left out: on a fixed disk it returns what a fresh read returns.

  \<open>filepath.IsAbs\<close> on Unix is \<open>strings.HasPrefix(path, "/")\<close>; \<open>filepath.Split\<close> cuts
  after the last separator.

  \<open>tryPath\<close> reads \<open>importedPath\<close> itself when it is absolute and
  \<open>filepath.Join(dir, importedPath)\<close> otherwise. \<open>Import\<close> tries the directory of the
  importing file first; then its loop
  \<^verbatim>\<open>for i := len(importer.JPaths) - 1; !found && i >= 0; i--\<close>
  tries the search paths from the last to the first (\<open>tryJPaths\<close>, on the number of
  search paths still to try), and stops at the first file found or the first read error.
\<close>

type_synonym disk = "string \<Rightarrow> (go_error + string) option"

definition IsAbs :: "string \<Rightarrow> bool" where
  "IsAbs path = HasPrefix path ''/''"

definition Split :: "string \<Rightarrow> string \<times> string" where
  "Split path =
     (rev (dropWhile (\<lambda>c. \<not> IsPathSeparator c) (rev path)),
      rev (takeWhile (\<lambda>c. \<not> IsPathSeparator c) (rev path)))"

definition absPath :: "string \<Rightarrow> string \<Rightarrow> string" where
  "absPath dir importedPath =
     (if IsAbs importedPath then importedPath else Join [dir, importedPath])"

datatype try_result = TryError go_error | NotThere | Found Contents string

definition tryPath :: "disk \<Rightarrow> string \<Rightarrow> string \<Rightarrow> try_result" where
  "tryPath files dir importedPath =
     (case files (absPath dir importedPath) of
        None \<Rightarrow> NotThere
      | Some (Inl err) \<Rightarrow> TryError err
      | Some (Inr content) \<Rightarrow> Found (MakeContents content) (absPath dir importedPath))"

fun tryJPaths :: "disk \<Rightarrow> string list \<Rightarrow> nat \<Rightarrow> string \<Rightarrow> import_result" where
  "tryJPaths files jpaths 0 importedPath =
     (zero_Contents, [], Some (ImportNoMatch importedPath))"
| "tryJPaths files jpaths (Suc i) importedPath =
     (case tryPath files (jpaths ! i) importedPath of
        TryError err \<Rightarrow> (zero_Contents, [], Some err)
      | Found content foundHere \<Rightarrow> (content, foundHere, None)
      | NotThere \<Rightarrow> tryJPaths files jpaths i importedPath)"

definition FileImporter_Import :: "disk \<Rightarrow> file_import" where
  "FileImporter_Import files importer_fi importedFrom importedPath =
     (case tryPath files (fst (Split importedFrom)) importedPath of
        TryError err \<Rightarrow> (zero_Contents, [], Some err)
      | Found content foundHere \<Rightarrow> (content, foundHere, None)
      | NotThere \<Rightarrow>
          tryJPaths files (JPaths importer_fi) (length (JPaths importer_fi)) importedPath)"

section \<open>The importer of load.go\<close>

record importer =
  fi :: FileImporter
  embedded :: "string \<rightharpoonup> Contents"

definition newImporter :: "Opts \<Rightarrow> go_error + importer" where
  "newImporter opts =
     (case ReadFile (EmbeddedFS opts) ''doc-util/main.libsonnet'' of
        Inl err \<Rightarrow> Inl err
      | Inr dmain \<Rightarrow>
          (case ReadFile (EmbeddedFS opts) ''doc-util/render.libsonnet'' of
             Inl err \<Rightarrow> Inl err
           | Inr drender \<Rightarrow>
               Inr \<lparr>fi = \<lparr>JPaths = JPath opts\<rparr>,
                    embedded = [''main.libsonnet'' \<mapsto> MakeContents dmain,
                                ''render.libsonnet'' \<mapsto> MakeContents drender]\<rparr>))"

definition docUtilPathPrefixes :: "string list" where
  "docUtilPathPrefixes =
     [''doc-util/'',
      ''github.com/jsonnet-libs/docsonnet/doc-util/'',
      ''./render.libsonnet'']"

definition loadFromEmbed :: "importer \<Rightarrow> string \<Rightarrow> import_result" where
  "loadFromEmbed i importedPath =
     (let fbase = Base importedPath;
          fpath = Join [''doc-util'', fbase];
          loadPath = ''<internal>/'' @ fpath
      in case embedded i fbase of
           None \<Rightarrow> (zero_Contents, loadPath, Some (Errorf (fpath @ '' does not exist'')))
         | Some conts \<Rightarrow> (conts, loadPath, None))"

text \<open>
  \<open>importer.Import\<close>: the loop over the prefixes (\<open>Import_from\<close>, on the prefixes still to
  try) returns from the first one that matches; after the loop the request goes to the
  file importer. The second component lists the calls made to the file importer.
\<close>

fun Import_from ::
  "file_import \<Rightarrow> importer \<Rightarrow> string list \<Rightarrow> string \<Rightarrow> string \<Rightarrow> import_result \<times> fi_call list"
where
  "Import_from lib i [] importedFrom importedPath =
     (lib (fi i) importedFrom importedPath, [FiImport (fi i) importedFrom importedPath])"
| "Import_from lib i (p # ps) importedFrom importedPath =
     (if HasPrefix importedPath p then (loadFromEmbed i importedPath, [])
      else Import_from lib i ps importedFrom importedPath)"

definition Import ::
  "file_import \<Rightarrow> importer \<Rightarrow> string \<Rightarrow> string \<Rightarrow> import_result \<times> fi_call list"
where
  "Import lib i importedFrom importedPath =
     Import_from lib i docUtilPathPrefixes importedFrom importedPath"

section \<open>The evaluator session\<close>

text \<open>
  The fields of \<open>jsonnet.VM\<close> that load.go sets: the importer (an interface value: the
  library's file importer, or the importer of load.go) and the external variables, each
  a text with the flag that says whether it is code. \<open>MakeVM\<close> starts with the library's
  file importer without search paths and no external variable.
\<close>

datatype Importer = LibFileImporter FileImporter | DocUtilImporter importer

datatype vmExt = ExtVarText string | ExtCodeText string

record VM =
  vm_importer :: Importer
  vm_ext :: "string \<rightharpoonup> vmExt"

definition MakeVM :: VM where
  "MakeVM = \<lparr>vm_importer = LibFileImporter \<lparr>JPaths = []\<rparr>, vm_ext = Map.empty\<rparr>"

definition VM_Importer :: "VM \<Rightarrow> Importer \<Rightarrow> VM" where
  "VM_Importer vm i = vm\<lparr>vm_importer := i\<rparr>"

definition ExtCode :: "VM \<Rightarrow> string \<Rightarrow> string \<Rightarrow> VM" where
  "ExtCode vm key val = vm\<lparr>vm_ext := (vm_ext vm)(key \<mapsto> ExtCodeText val)\<rparr>"

definition newVM :: "string \<Rightarrow> Opts \<Rightarrow> go_error + VM" where
  "newVM mainFName opts =
     (case newImporter opts of
        Inl err \<Rightarrow> Inl err
      | Inr imp \<Rightarrow>
          Inr (ExtCode (VM_Importer MakeVM (DocUtilImporter imp)) ''main''
                 (''(import '' @ [dquote] @ mainFName @ [dquote] @ '')'')))"

text \<open>
  \<open>vm.EvaluateAnonymousSnippet(filename, snippet)\<close> is the library's evaluator, a
  parameter of the model; every call made to it is recorded as an \<open>Evaluate\<close> event.
\<close>

type_synonym evaluator = "VM \<Rightarrow> string \<Rightarrow> string \<Rightarrow> go_error + string"

datatype eval_call = Evaluate VM string string

definition Extract ::
  "evaluator \<Rightarrow> string \<Rightarrow> Opts \<Rightarrow> (go_error + bytes) \<times> eval_call list"
where
  "Extract evaluate filename opts =
     (case ReadFile (EmbeddedFS opts) ''load.libsonnet'' of
        Inl err \<Rightarrow> (Inl err, [])
      | Inr load \<Rightarrow>
          (case newVM filename opts of
             Inl err \<Rightarrow> (Inl err, [])
           | Inr vm \<Rightarrow>
               (case evaluate vm ''load.libsonnet'' load of
                  Inl err \<Rightarrow> (Inl err, [Evaluate vm ''load.libsonnet'' load])
                | Inr data \<Rightarrow> (Inr data, [Evaluate vm ''load.libsonnet'' load]))))"

text \<open>
  \<open>RenderWithJsonnet\<close> ends with \<^verbatim>\<open>return out, err\<close> on what \<open>json.Unmarshal\<close> left
  in \<open>out\<close> and returned: the decoder into \<open>map[string]string\<close> is the parameter
  \<open>unmarshal_out\<close>, giving both. A nil map is \<open>None\<close>.
\<close>

type_synonym render_result = "(string \<rightharpoonup> string) option \<times> go_error option"

definition RenderWithJsonnet ::
  "evaluator \<Rightarrow> (bytes \<Rightarrow> render_result) \<Rightarrow> string \<Rightarrow> Opts \<Rightarrow> render_result \<times> eval_call list"
where
  "RenderWithJsonnet evaluate unmarshal_out filename opts =
     (case ReadFile (EmbeddedFS opts) ''render.libsonnet'' of
        Inl err \<Rightarrow> ((None, Some err), [])
      | Inr render \<Rightarrow>
          (case newVM filename opts of
             Inl err \<Rightarrow> ((None, Some err), [])
           | Inr vm0 \<Rightarrow>
               (let vm = ExtCode vm0 ''d''
                           (''(import '' @ [dquote] @ ''doc-util/main.libsonnet'' @ [dquote] @ '')'')
                in case evaluate vm ''render.libsonnet'' render of
                     Inl err \<Rightarrow> ((None, Some err), [Evaluate vm ''render.libsonnet'' render])
                   | Inr data \<Rightarrow> (unmarshal_out data, [Evaluate vm ''render.libsonnet'' render]))))"

section \<open>Transform and Load\<close>

text \<open>
  \<open>Transform\<close> decodes into the type \<open>ds\<close> and calls \<open>fastLoad\<close>; neither \<open>ds\<close>,
  \<open>fastLoad\<close> nor \<open>Package\<close> is in load.go. They are parameters: \<open>unmarshal\<close> is
  \<open>json.Unmarshal\<close> into a \<open>ds\<close> (an error, or the decoded value), and \<open>fastLoad d\<close> is
  the package \<open>fastLoad\<close> returns, \<open>None\<close> when the call does not return (a panic).
  The result is Go's pair of a \<open>*Package\<close> (\<open>None\<close> is nil) and an error.
\<close>

type_synonym 'pkg transform_result = "'pkg option \<times> go_error option"

definition Transform ::
  "(bytes \<Rightarrow> go_error + 'ds) \<Rightarrow> ('ds \<Rightarrow> 'pkg option) \<Rightarrow> bytes \<Rightarrow> 'pkg transform_result ending"
where
  "Transform unmarshal fastLoad data =
     (case unmarshal data of
        Inl err \<Rightarrow> Fatal err
      | Inr d \<Rightarrow>
          (case fastLoad d of
             None \<Rightarrow> Panics
           | Some p \<Rightarrow> Returns (Some p, None)))"

definition Load ::
  "evaluator \<Rightarrow> (bytes \<Rightarrow> go_error + 'ds) \<Rightarrow> ('ds \<Rightarrow> 'pkg option) \<Rightarrow> string \<Rightarrow> Opts
     \<Rightarrow> 'pkg transform_result ending"
where
  "Load evaluate unmarshal fastLoad filename opts =
     (case fst (Extract evaluate filename opts) of
        Inl err \<Rightarrow> Returns (None, Some err)
      | Inr data \<Rightarrow> Transform unmarshal fastLoad data)"

section \<open>Example inputs\<close>

text \<open>
  Values for the closed examples below. \<open>packaged\<close> is an embedded file system with the
  four scripts, \<open>packaged_without_load\<close> lacks the extraction driver, and
  \<open>example_importer\<close> is the importer that \<open>newImporter\<close> builds from \<open>example_opts\<close>.
  \<open>example_files\<close> is a disk that holds \<open>lib/x.libsonnet\<close> under both \<open>/a\<close> and \<open>/b\<close>,
  and \<open>/a/doc-util/main.libsonnet\<close>; \<open>example_disk\<close> is the library's file importer over
  it. \<open>example_vm\<close> is the VM that \<open>newVM\<close> builds for \<open>/src/main.jsonnet\<close> and
  \<open>example_opts\<close>; \<open>quoted_name\<close> is the file name \<open>a"b\<close> and \<open>two_imports_name\<close> the
  file name \<open>x") + (import "/etc/passwd\<close>. \<open>echo_evaluator\<close> stands in for the evaluator,
  \<open>empty_output_decoder\<close> for the decoder of the rendered output and \<open>strict_decoder\<close>
  for a decoder that accepts the text \<open>{}\<close> only.
\<close>

definition packaged :: embed_FS where
  "packaged =
     [''doc-util/main.libsonnet'' \<mapsto> ''{ pkg: 1 }'',
      ''doc-util/render.libsonnet'' \<mapsto> ''{ render: 2 }'',
      ''load.libsonnet'' \<mapsto> ''std.extVar(main)'',
      ''render.libsonnet'' \<mapsto> ''std.extVar(d)'']"

definition packaged_without_load :: embed_FS where
  "packaged_without_load = packaged(''load.libsonnet'' := None)"

definition example_opts :: Opts where
  "example_opts = \<lparr>JPath = [''/a'', ''/b''], EmbeddedFS = packaged\<rparr>"

definition example_opts_without_load :: Opts where
  "example_opts_without_load = \<lparr>JPath = [''/a'', ''/b''], EmbeddedFS = packaged_without_load\<rparr>"

definition example_importer :: importer where
  "example_importer =
     \<lparr>fi = \<lparr>JPaths = [''/a'', ''/b'']\<rparr>,
      embedded = [''main.libsonnet'' \<mapsto> MakeContents ''{ pkg: 1 }'',
                  ''render.libsonnet'' \<mapsto> MakeContents ''{ render: 2 }'']\<rparr>"

definition example_files :: disk where
  "example_files path =
     (if path = ''/a/lib/x.libsonnet'' then Some (Inr ''{ a: 1 }'')
      else if path = ''/b/lib/x.libsonnet'' then Some (Inr ''{ b: 2 }'')
      else if path = ''/a/doc-util/main.libsonnet'' then Some (Inr ''{ disk: 3 }'')
      else None)"

definition example_disk :: file_import where
  "example_disk = FileImporter_Import example_files"

definition quoted_name :: string where
  "quoted_name = ''a'' @ [dquote] @ ''b''"

definition two_imports_name :: string where
  "two_imports_name = ''x'' @ [dquote] @ '') + (import '' @ [dquote] @ ''/etc/passwd''"

definition example_vm :: VM where
  "example_vm =
     \<lparr>vm_importer = DocUtilImporter example_importer,
      vm_ext = [''main'' \<mapsto>
                 ExtCodeText (''(import '' @ [dquote] @ ''/src/main.jsonnet'' @ [dquote] @ '')'')]\<rparr>"

definition echo_evaluator :: evaluator where
  "echo_evaluator vm name snippet = Inr snippet"

definition empty_output_decoder :: "bytes \<Rightarrow> render_result" where
  "empty_output_decoder data = (Some Map.empty, None)"

definition strict_decoder :: "bytes \<Rightarrow> go_error + unit" where
  "strict_decoder data =
     (if data = ''{}'' then Inr () else Inl (LibraryError ''unexpected end of JSON input''))"

section \<open>Lemmas on paths and on the prefix loop\<close>

lemma elems_no_sep: "\<forall>c\<in>set b. \<not> IsPathSeparator c \<Longrightarrow> elems b = [b]"
  by (induction b) auto

lemma elems_append_sep:
  "\<forall>c\<in>set a. \<not> IsPathSeparator c \<Longrightarrow> elems (a @ CHR ''/'' # b) = a # elems b"
  by (induction a) (auto simp: IsPathSeparator_def)

lemma Join_doc_util:
  assumes "b \<noteq> []" "\<forall>c\<in>set b. \<not> IsPathSeparator c" "b \<noteq> ''.''" "b \<noteq> ''..''"
  shows "Join [''doc-util'', b] = ''doc-util/'' @ b"
proof -
  define s where "s = ''doc-util/'' @ b"
  have "elems (''doc-util'' @ CHR ''/'' # b) = [''doc-util'', b]"
    using assms(2) by (subst elems_append_sep) (simp_all add: IsPathSeparator_def elems_no_sep)
  then have e: "elems s = [''doc-util'', b]" by (simp add: s_def)
  have r: "(s \<noteq> [] \<and> IsPathSeparator (hd s)) = False"
    by (simp add: s_def IsPathSeparator_def)
  have k: "foldl (clean_step False) [] [''doc-util'', b] = [''doc-util'', b]"
    using assms(1,3,4) by (simp add: clean_step_def)
  have j: "strings_Join [''doc-util'', b] ''/'' = s"
    by (simp add: s_def)
  have sne: "(s = []) = False"
    by (simp add: s_def)
  have "Clean s = s"
    unfolding Clean_def Let_def e r k j by (simp only: if_False sne append_Nil)
  moreover have "Join [''doc-util'', b] = Clean s"
    unfolding j [symmetric] by simp
  ultimately show ?thesis
    by (simp only: s_def)
qed

lemma takeWhile_name_chars:
  "c \<in> set (takeWhile (\<lambda>c. \<not> IsPathSeparator c) ys) \<Longrightarrow> \<not> IsPathSeparator c"
  by (induction ys) (auto split: if_splits)

lemma Base_no_sep:
  assumes "\<exists>c\<in>set path. \<not> IsPathSeparator c"
  shows "Base path \<noteq> [] \<and> (\<forall>c\<in>set (Base path). \<not> IsPathSeparator c)"
proof -
  define ys where "ys = dropWhile IsPathSeparator (rev path)"
  define t where "t = takeWhile (\<lambda>c. \<not> IsPathSeparator c) ys"
  from assms have ne: "path \<noteq> []" by auto
  have b: "Base path = (if t = [] then ''/'' else rev t)"
    using ne by (simp add: Base_def Let_def ys_def t_def)
  from assms have "\<not> (\<forall>c\<in>set (rev path). IsPathSeparator c)"
    by simp
  then have ysne: "ys \<noteq> []"
    unfolding ys_def using dropWhile_eq_Nil_conv [of IsPathSeparator "rev path"] by blast
  then have "\<not> IsPathSeparator (hd ys)"
    unfolding ys_def by (rule hd_dropWhile)
  with ysne have "t \<noteq> []"
    unfolding t_def by (cases ys) simp_all
  moreover have "\<forall>c\<in>set t. \<not> IsPathSeparator c"
    unfolding t_def using takeWhile_name_chars by blast
  ultimately show ?thesis
    using b by simp
qed

lemma prefix_has_name_char:
  assumes "p \<in> set docUtilPathPrefixes" "HasPrefix path p"
  shows "\<exists>c\<in>set path. \<not> IsPathSeparator c"
proof -
  from assms(1) have p: "p \<noteq> [] \<and> \<not> IsPathSeparator (hd p)"
    by (auto simp: docUtilPathPrefixes_def IsPathSeparator_def)
  from assms(2) have t: "take (length p) path = p"
    by (simp add: HasPrefix_def)
  with p have ne: "path \<noteq> []" by auto
  from t p have "hd path = hd p"
    by (metis hd_take length_greater_0_conv)
  with p ne show ?thesis
    using hd_in_set by fastforce
qed

lemma Import_from_match:
  "\<exists>p\<in>set ps. HasPrefix importedPath p \<Longrightarrow>
   Import_from lib i ps importedFrom importedPath = (loadFromEmbed i importedPath, [])"
  by (induction ps) auto

lemma Import_from_no_match:
  "\<forall>p\<in>set ps. \<not> HasPrefix importedPath p \<Longrightarrow>
   Import_from lib i ps importedFrom importedPath =
     (lib (fi i) importedFrom importedPath, [FiImport (fi i) importedFrom importedPath])"
  by (induction ps) auto

lemma newImporter_example: "newImporter example_opts = Inr example_importer"
  by (simp add: newImporter_def example_opts_def example_importer_def ReadFile_def packaged_def)

lemma loadFromEmbed_example_main:
  "loadFromEmbed example_importer ''doc-util/main.libsonnet'' =
     (MakeContents ''{ pkg: 1 }'', ''<internal>/doc-util/main.libsonnet'', None)"
  by (simp add: loadFromEmbed_def example_importer_def Base_def Clean_def clean_step_def
      IsPathSeparator_def Let_def)

lemma loadFromEmbed_example_dotdot:
  "loadFromEmbed example_importer ''doc-util/..'' =
     (zero_Contents, ''<internal>/.'', Some (Errorf ''. does not exist''))"
  by (simp add: loadFromEmbed_def example_importer_def Base_def Clean_def clean_step_def
      IsPathSeparator_def Let_def)

lemma example_disk_doc_util_main:
  "example_disk (fi example_importer) ''/src/main.jsonnet'' ''doc-util/main.libsonnet''
     = (MakeContents ''{ disk: 3 }'', ''/a/doc-util/main.libsonnet'', None)"
  by (simp add: example_disk_def FileImporter_Import_def tryPath_def absPath_def IsAbs_def
      HasPrefix_def Split_def Clean_def clean_step_def IsPathSeparator_def Let_def
      example_files_def example_importer_def)

lemma doc_util_prefix: "''doc-util/'' \<in> set docUtilPathPrefixes"
  by (simp add: docUtilPathPrefixes_def)

lemma foundAt_loadFromEmbed:
  "foundAt (loadFromEmbed i importedPath) = ''<internal>/'' @ Join [''doc-util'', Base importedPath]"
  by (simp add: loadFromEmbed_def foundAt_def Let_def split: option.splits)

lemma newImporter_without_load: "newImporter example_opts_without_load = Inr example_importer"
  by (simp add: newImporter_def example_opts_without_load_def example_importer_def ReadFile_def
      packaged_without_load_def packaged_def)

lemma newVM_without_load: "newVM ''/src/main.jsonnet'' example_opts_without_load = Inr example_vm"
  by (simp add: newVM_def newImporter_without_load example_vm_def MakeVM_def VM_Importer_def
      ExtCode_def)

lemma newImporter_Inl:
  "(\<exists>e. newImporter opts = Inl e) \<longleftrightarrow>
     (EmbeddedFS opts ''doc-util/main.libsonnet'' = None
      \<or> EmbeddedFS opts ''doc-util/render.libsonnet'' = None)"
  by (auto simp: newImporter_def ReadFile_def split: option.splits)

lemma newImporter_Inr:
  "newImporter opts = Inr i \<Longrightarrow>
     \<exists>dmain drender.
       EmbeddedFS opts ''doc-util/main.libsonnet'' = Some dmain
       \<and> EmbeddedFS opts ''doc-util/render.libsonnet'' = Some drender
       \<and> i = \<lparr>fi = \<lparr>JPaths = JPath opts\<rparr>,
               embedded = [''main.libsonnet'' \<mapsto> MakeContents dmain,
                           ''render.libsonnet'' \<mapsto> MakeContents drender]\<rparr>"
  by (auto simp: newImporter_def ReadFile_def split: option.splits)

lemma newVM_Inl: "newImporter opts = Inl e \<Longrightarrow> newVM filename opts = Inl e"
  by (simp add: newVM_def)

lemma Extract_fails_early:
  assumes "EmbeddedFS opts ''load.libsonnet'' = None \<or> (\<exists>e. newImporter opts = Inl e)"
  shows "\<exists>e. Extract evaluate filename opts = (Inl e, [])"
proof (cases "EmbeddedFS opts ''load.libsonnet''")
  case None
  then show ?thesis
    by (simp add: Extract_def ReadFile_def)
next
  case (Some load)
  with assms obtain e where "newImporter opts = Inl e"
    by auto
  then have "newVM filename opts = Inl e"
    by (rule newVM_Inl)
  with Some show ?thesis
    by (simp add: Extract_def ReadFile_def)
qed

lemma RenderWithJsonnet_fails_early:
  assumes "EmbeddedFS opts ''render.libsonnet'' = None \<or> (\<exists>e. newImporter opts = Inl e)"
  shows "\<exists>e. RenderWithJsonnet evaluate unmarshal_out filename opts = ((None, Some e), [])"
proof (cases "EmbeddedFS opts ''render.libsonnet''")
  case None
  then show ?thesis
    by (simp add: RenderWithJsonnet_def ReadFile_def)
next
  case (Some render)
  with assms obtain e where "newImporter opts = Inl e"
    by auto
  then have "newVM filename opts = Inl e"
    by (rule newVM_Inl)
  with Some show ?thesis
    by (simp add: RenderWithJsonnet_def ReadFile_def)
qed

lemma Extract_calls:
  "newVM filename opts = Inr vm \<Longrightarrow>
   c \<in> set (snd (Extract evaluate filename opts)) \<Longrightarrow>
   \<exists>snippet. c = Evaluate vm ''load.libsonnet'' snippet"
  by (auto simp: Extract_def split: sum.splits)

lemma RenderWithJsonnet_calls:
  "newVM filename opts = Inr vm \<Longrightarrow>
   c \<in> set (snd (RenderWithJsonnet evaluate unmarshal_out filename opts)) \<Longrightarrow>
   \<exists>vm' snippet. c = Evaluate vm' ''render.libsonnet'' snippet
      \<and> vm_importer vm' = vm_importer vm \<and> vm_ext vm' ''main'' = vm_ext vm ''main''"
  by (auto simp: RenderWithJsonnet_def ExtCode_def Let_def split: sum.splits)

lemma RenderWithJsonnet_without_load:
  "snd (RenderWithJsonnet echo_evaluator empty_output_decoder ''/src/main.jsonnet''
          example_opts_without_load) =
     [Evaluate
        (ExtCode example_vm ''d''
           (''(import '' @ [dquote] @ ''doc-util/main.libsonnet'' @ [dquote] @ '')''))
        ''render.libsonnet'' ''std.extVar(d)'']"
proof -
  have "ReadFile (EmbeddedFS example_opts_without_load) ''render.libsonnet'' = Inr ''std.extVar(d)''"
    by (simp add: ReadFile_def example_opts_without_load_def packaged_without_load_def
        packaged_def)
  then show ?thesis
    by (simp add: RenderWithJsonnet_def newVM_without_load echo_evaluator_def Let_def)
qed

lemma Extract_without_load:
  "Extract echo_evaluator ''/src/main.jsonnet'' example_opts_without_load =
     (Inl (ReadFileError ''load.libsonnet''), [])"
proof -
  have "ReadFile (EmbeddedFS example_opts_without_load) ''load.libsonnet'' =
          Inl (ReadFileError ''load.libsonnet'')"
    by (simp add: ReadFile_def example_opts_without_load_def packaged_without_load_def)
  then show ?thesis
    by (simp add: Extract_def)
qed

lemma load_missing: "EmbeddedFS example_opts_without_load ''load.libsonnet'' = None"
  by (simp add: example_opts_without_load_def packaged_without_load_def)

lemma tryJPaths_last_hit:
  assumes "k < n"
    and "\<forall>j. k < j \<and> j < n \<longrightarrow> files (absPath (jpaths ! j) importedPath) = None"
    and "files (absPath (jpaths ! k) importedPath) = Some (Inr content)"
  shows "tryJPaths files jpaths n importedPath =
           (MakeContents content, absPath (jpaths ! k) importedPath, None)"
  using assms
proof (induction n)
  case 0
  then show ?case by simp
next
  case (Suc n)
  show ?case
  proof (cases "k = n")
    case True
    with Suc.prems(3) show ?thesis
      by (simp add: tryPath_def)
  next
    case False
    with Suc.prems(1) have kn: "k < n" by simp
    from Suc.prems(2) kn have "files (absPath (jpaths ! n) importedPath) = None"
      by simp
    moreover from Suc.prems(2) have
      "\<forall>j. k < j \<and> j < n \<longrightarrow> files (absPath (jpaths ! j) importedPath) = None"
      by simp
    ultimately show ?thesis
      using Suc.IH [OF kn _ Suc.prems(3)] by (simp add: tryPath_def)
  qed
qed

lemma tryJPaths_no_hit:
  assumes "\<forall>j. j < n \<longrightarrow> files (absPath (jpaths ! j) importedPath) = None"
  shows "tryJPaths files jpaths n importedPath =
           (zero_Contents, [], Some (ImportNoMatch importedPath))"
  using assms by (induction n) (simp_all add: tryPath_def)

lemma FileImporter_Import_last_hit:
  assumes "files (absPath (fst (Split importedFrom)) importedPath) = None"
    and "k < length (JPaths importer_fi)"
    and "\<forall>j. k < j \<and> j < length (JPaths importer_fi) \<longrightarrow>
           files (absPath (JPaths importer_fi ! j) importedPath) = None"
    and "files (absPath (JPaths importer_fi ! k) importedPath) = Some (Inr content)"
  shows "FileImporter_Import files importer_fi importedFrom importedPath =
           (MakeContents content, absPath (JPaths importer_fi ! k) importedPath, None)"
  using assms(1) tryJPaths_last_hit [OF assms(2,3,4)]
  by (simp add: FileImporter_Import_def tryPath_def)

lemma FileImporter_Import_local:
  assumes "files (absPath (fst (Split importedFrom)) importedPath) = Some (Inr content)"
  shows "FileImporter_Import files importer_fi importedFrom importedPath =
           (MakeContents content, absPath (fst (Split importedFrom)) importedPath, None)"
  using assms by (simp add: FileImporter_Import_def tryPath_def)

lemma example_disk_lib_x:
  "example_disk \<lparr>JPaths = [''/a'', ''/b'']\<rparr> ''/src/main.jsonnet'' ''lib/x.libsonnet''
     = (MakeContents ''{ b: 2 }'', ''/b/lib/x.libsonnet'', None)"
  by (simp add: example_disk_def FileImporter_Import_def tryPath_def absPath_def IsAbs_def
      HasPrefix_def Split_def Clean_def clean_step_def IsPathSeparator_def Let_def
      example_files_def)

lemma example_files_copies:
  "example_files ''/a/lib/x.libsonnet'' = Some (Inr ''{ a: 1 }'')
   \<and> example_files ''/b/lib/x.libsonnet'' = Some (Inr ''{ b: 2 }'')"
  by (simp add: example_files_def)

lemma newImporter_keys:
  assumes "newImporter opts = Inr i"
  shows "(embedded i b \<noteq> None) = (b = ''main.libsonnet'' \<or> b = ''render.libsonnet'')"
proof -
  from newImporter_Inr [OF assms] obtain dmain drender where
    "i = \<lparr>fi = \<lparr>JPaths = JPath opts\<rparr>,
               embedded = [''main.libsonnet'' \<mapsto> MakeContents dmain,
                           ''render.libsonnet'' \<mapsto> MakeContents drender]\<rparr>"
    by blast
  then have "embedded i = [''main.libsonnet'' \<mapsto> MakeContents dmain,
                           ''render.libsonnet'' \<mapsto> MakeContents drender]"
    by simp
  then show ?thesis
    by (simp only: fun_upd_apply) simp
qed

lemma Join_doc_util_main: "Join [''doc-util'', ''main.libsonnet''] = ''doc-util/main.libsonnet''"
  by (simp add: Clean_def clean_step_def IsPathSeparator_def Let_def)

lemma Join_doc_util_render: "Join [''doc-util'', ''render.libsonnet''] = ''doc-util/render.libsonnet''"
  by (simp add: Clean_def clean_step_def IsPathSeparator_def Let_def)

lemma Join_doc_util_bundled:
  assumes "b = ''main.libsonnet'' \<or> b = ''render.libsonnet''"
  shows "Join [''doc-util'', b] = ''doc-util/'' @ b"
  using assms
proof
  assume "b = ''main.libsonnet''"
  then show ?thesis
    by (simp only: Join_doc_util_main) simp
next
  assume "b = ''render.libsonnet''"
  then show ?thesis
    by (simp only: Join_doc_util_render) simp
qed

lemma loadFromEmbed_example_dot:
  "loadFromEmbed example_importer ''doc-util/.'' =
     (zero_Contents, ''<internal>/doc-util'', Some (Errorf ''doc-util does not exist''))"
  by (simp add: loadFromEmbed_def example_importer_def Base_def Clean_def clean_step_def
      IsPathSeparator_def Let_def)

lemma HasPrefix_doc_util_dotdot: "HasPrefix ''doc-util/..'' ''doc-util/''"
  by (simp add: HasPrefix_def)

lemma HasPrefix_doc_util_dot: "HasPrefix ''doc-util/.'' ''doc-util/''"
  by (simp add: HasPrefix_def)

lemma example_local_missing:
  "example_files (absPath (fst (Split ''/src/main.jsonnet'')) ''lib/x.libsonnet'') = None"
  by (simp add: absPath_def IsAbs_def HasPrefix_def Split_def Clean_def clean_step_def
      IsPathSeparator_def Let_def example_files_def)

lemma example_b_copy:
  "example_files (absPath ''/b'' ''lib/x.libsonnet'') = Some (Inr ''{ b: 2 }'')
   \<and> absPath ''/b'' ''lib/x.libsonnet'' = ''/b/lib/x.libsonnet''"
  by (simp add: absPath_def IsAbs_def HasPrefix_def Clean_def clean_step_def
      IsPathSeparator_def Let_def example_files_def)

lemma lib_x_no_prefix:
  "\<not> (\<exists>p\<in>set docUtilPathPrefixes. HasPrefix ''lib/x.libsonnet'' p)"
  by (simp add: docUtilPathPrefixes_def HasPrefix_def)

lemma JPath_example_opts: "JPath example_opts = [''/a'', ''/b'']"
  by (simp add: example_opts_def)

lemma newVM_Inl_iff:
  "(\<exists>e. newVM filename opts = Inl e) = (\<exists>e. newImporter opts = Inl e)"
  by (auto simp: newVM_def split: sum.splits)

lemma newVM_Inr_iff:
  "(\<exists>vm. newVM filename opts = Inr vm) =
     (EmbeddedFS opts ''doc-util/main.libsonnet'' \<noteq> None
      \<and> EmbeddedFS opts ''doc-util/render.libsonnet'' \<noteq> None)"
proof -
  have "(\<exists>vm. newVM filename opts = Inr vm) = (\<not> (\<exists>e. newVM filename opts = Inl e))"
    by (cases "newVM filename opts") auto
  then show ?thesis
    unfolding newVM_Inl_iff newImporter_Inl by simp
qed

lemma Extract_goes_on:
  assumes "EmbeddedFS opts ''load.libsonnet'' = Some load" and "newVM filename opts = Inr vm"
  shows "Extract evaluate filename opts =
           (evaluate vm ''load.libsonnet'' load, [Evaluate vm ''load.libsonnet'' load])"
  using assms by (cases "evaluate vm ''load.libsonnet'' load") (simp_all add: Extract_def ReadFile_def)

lemma RenderWithJsonnet_goes_on:
  assumes "EmbeddedFS opts ''render.libsonnet'' = Some render"
    and "newVM filename opts = Inr vm"
  shows "snd (RenderWithJsonnet evaluate unmarshal_out filename opts) =
           [Evaluate
              (ExtCode vm ''d''
                 (''(import '' @ [dquote] @ ''doc-util/main.libsonnet'' @ [dquote] @ '')''))
              ''render.libsonnet'' render]"
  using assms
  by (cases "evaluate (ExtCode vm ''d''
                 (''(import '' @ [dquote] @ ''doc-util/main.libsonnet'' @ [dquote] @ '')''))
              ''render.libsonnet'' render")
     (simp_all add: RenderWithJsonnet_def ReadFile_def Let_def)

lemma Extract_fails_early_iff:
  "(\<exists>e. Extract evaluate filename opts = (Inl e, [])) =
     (EmbeddedFS opts ''load.libsonnet'' = None \<or> (\<exists>e. newImporter opts = Inl e))"
proof
  assume "\<exists>e. Extract evaluate filename opts = (Inl e, [])"
  then have s: "snd (Extract evaluate filename opts) = []"
    by auto
  show "EmbeddedFS opts ''load.libsonnet'' = None \<or> (\<exists>e. newImporter opts = Inl e)"
  proof (rule ccontr)
    assume n: "\<not> (EmbeddedFS opts ''load.libsonnet'' = None \<or> (\<exists>e. newImporter opts = Inl e))"
    then obtain load where l: "EmbeddedFS opts ''load.libsonnet'' = Some load"
      by auto
    from n have "\<not> (\<exists>e. newVM filename opts = Inl e)"
      using newVM_Inl_iff by blast
    then obtain vm where "newVM filename opts = Inr vm"
      by (cases "newVM filename opts") auto
    from Extract_goes_on [OF l this] s show False
      by simp
  qed
next
  assume "EmbeddedFS opts ''load.libsonnet'' = None \<or> (\<exists>e. newImporter opts = Inl e)"
  then show "\<exists>e. Extract evaluate filename opts = (Inl e, [])"
    by (rule Extract_fails_early)
qed

lemma RenderWithJsonnet_fails_early_iff:
  "(\<exists>e. RenderWithJsonnet evaluate unmarshal_out filename opts = ((None, Some e), [])) =
     (EmbeddedFS opts ''render.libsonnet'' = None \<or> (\<exists>e. newImporter opts = Inl e))"
proof
  assume "\<exists>e. RenderWithJsonnet evaluate unmarshal_out filename opts = ((None, Some e), [])"
  then have s: "snd (RenderWithJsonnet evaluate unmarshal_out filename opts) = []"
    by auto
  show "EmbeddedFS opts ''render.libsonnet'' = None \<or> (\<exists>e. newImporter opts = Inl e)"
  proof (rule ccontr)
    assume n: "\<not> (EmbeddedFS opts ''render.libsonnet'' = None \<or> (\<exists>e. newImporter opts = Inl e))"
    then obtain render where l: "EmbeddedFS opts ''render.libsonnet'' = Some render"
      by auto
    from n have "\<not> (\<exists>e. newVM filename opts = Inl e)"
      using newVM_Inl_iff by blast
    then obtain vm where "newVM filename opts = Inr vm"
      by (cases "newVM filename opts") auto
    from RenderWithJsonnet_goes_on [OF l this] s show False
      by simp
  qed
next
  assume "EmbeddedFS opts ''render.libsonnet'' = None \<or> (\<exists>e. newImporter opts = Inl e)"
  then show "\<exists>e. RenderWithJsonnet evaluate unmarshal_out filename opts = ((None, Some e), [])"
    by (rule RenderWithJsonnet_fails_early)
qed

lemma render_present_without_load:
  "EmbeddedFS example_opts_without_load ''render.libsonnet'' = Some ''std.extVar(d)''"
  by (simp add: example_opts_without_load_def packaged_without_load_def packaged_def)

lemma newVM_quoted_name:
  "newVM quoted_name example_opts =
     Inr \<lparr>vm_importer = DocUtilImporter example_importer,
          vm_ext = [''main'' \<mapsto>
                     ExtCodeText (''(import '' @ [dquote] @ ''a'' @ [dquote] @ ''b'' @ [dquote]
                                  @ '')'')]\<rparr>"
  by (simp add: newVM_def newImporter_example MakeVM_def VM_Importer_def ExtCode_def
      quoted_name_def)

lemma newVM_two_imports_name:
  "newVM two_imports_name example_opts =
     Inr \<lparr>vm_importer = DocUtilImporter example_importer,
          vm_ext = [''main'' \<mapsto>
                     ExtCodeText (''(import '' @ [dquote] @ ''x'' @ [dquote] @ '') + (import ''
                                  @ [dquote] @ ''/etc/passwd'' @ [dquote] @ '')'')]\<rparr>"
  by (simp add: newVM_def newImporter_example MakeVM_def VM_Importer_def ExtCode_def
      two_imports_name_def)

section \<open>Transform\<close>

lemma Transform_cases:
  "Transform unmarshal fastLoad data = Returns r \<Longrightarrow> \<exists>p. r = (Some p, None)"
  by (auto simp: Transform_def split: sum.splits option.splits)

text \<open>
  C10: whenever \<open>Transform\<close> returns, it returns a non-nil package together with a nil
  error; its error result is never non-nil.
\<close>

theorem Transform_error_always_nil:
  "Transform unmarshal fastLoad data = Returns (pkg, err) \<Longrightarrow> pkg \<noteq> None \<and> err = None"
  using Transform_cases [of unmarshal fastLoad data "(pkg, err)"] by auto

theorem Transform_error_always_nil_witness:
  "Transform strict_decoder (\<lambda>d. Some (0::nat)) ''{}'' = Returns (Some 0, None)
   \<and> Some (0::nat) \<noteq> None \<and> (None :: go_error option) = None"
proof -
  have r: "Transform strict_decoder (\<lambda>d. Some (0::nat)) ''{}'' = Returns (Some 0, None)"
    by (simp add: Transform_def strict_decoder_def)
  from Transform_error_always_nil [OF r] r show ?thesis by simp
qed

text \<open>
  C1 (the code departs from it): when \<open>json.Unmarshal\<close> fails on the input, \<open>Transform\<close>
  does not return: it ends the process through \<open>log.Fatalln\<close>, so no error reaches the
  caller.
\<close>

theorem Transform_decode_error_is_fatal:
  assumes "unmarshal data = Inl err"
  shows "Transform unmarshal fastLoad data = Fatal err
         \<and> Transform unmarshal fastLoad data \<noteq> Returns r"
  using assms by (simp add: Transform_def)

theorem Transform_decode_error_is_fatal_witness:
  "strict_decoder ''{'' = Inl (LibraryError ''unexpected end of JSON input'')
   \<and> Transform strict_decoder (\<lambda>d. Some (0::nat)) ''{''
       = Fatal (LibraryError ''unexpected end of JSON input'')"
proof -
  have d: "strict_decoder ''{'' = Inl (LibraryError ''unexpected end of JSON input'')"
    by (simp add: strict_decoder_def)
  from Transform_decode_error_is_fatal
    [where unmarshal = strict_decoder and data = "''{''" and fastLoad = "\<lambda>d. Some (0::nat)", OF d]
    d
  show ?thesis
    by blast
qed

section \<open>The importer\<close>

text \<open>
  C2: when \<open>importedPath\<close> starts with one of \<open>docUtilPathPrefixes\<close>, \<open>Import\<close> answers
  from the embedded store and makes no call to the file importer, whatever the file
  importer would find on disk (\<open>lib\<close>, \<open>lib'\<close>), whatever its search paths (\<open>f'\<close>) and
  whoever imports (\<open>importedFrom\<close>, \<open>importedFrom'\<close>).
\<close>

theorem Import_internal_prefix_skips_file_importer:
  assumes "p \<in> set docUtilPathPrefixes" and "HasPrefix importedPath p"
  shows "Import lib i importedFrom importedPath = (loadFromEmbed i importedPath, [])
         \<and> Import lib' (i\<lparr>fi := f'\<rparr>) importedFrom' importedPath
             = Import lib i importedFrom importedPath"
proof -
  from assms have m: "\<exists>p\<in>set docUtilPathPrefixes. HasPrefix importedPath p"
    by blast
  have "loadFromEmbed (i\<lparr>fi := f'\<rparr>) importedPath = loadFromEmbed i importedPath"
    by (simp add: loadFromEmbed_def)
  with m show ?thesis
    by (simp add: Import_def Import_from_match)
qed

theorem Import_internal_prefix_skips_file_importer_witness:
  "''doc-util/'' \<in> set docUtilPathPrefixes
   \<and> HasPrefix ''doc-util/main.libsonnet'' ''doc-util/''
   \<and> example_disk (fi example_importer) ''/src/main.jsonnet'' ''doc-util/main.libsonnet''
       = (MakeContents ''{ disk: 3 }'', ''/a/doc-util/main.libsonnet'', None)
   \<and> Import example_disk example_importer ''/src/main.jsonnet'' ''doc-util/main.libsonnet''
       = ((MakeContents ''{ pkg: 1 }'', ''<internal>/doc-util/main.libsonnet'', None), [])"
proof -
  have h: "HasPrefix ''doc-util/main.libsonnet'' ''doc-util/''"
    by (simp add: HasPrefix_def)
  have d: "example_disk (fi example_importer) ''/src/main.jsonnet'' ''doc-util/main.libsonnet''
       = (MakeContents ''{ disk: 3 }'', ''/a/doc-util/main.libsonnet'', None)"
    by (rule example_disk_doc_util_main)
  from Import_internal_prefix_skips_file_importer [OF doc_util_prefix h]
  have "Import example_disk example_importer ''/src/main.jsonnet'' ''doc-util/main.libsonnet''
          = (loadFromEmbed example_importer ''doc-util/main.libsonnet'', [])"
    by blast
  with doc_util_prefix h d show ?thesis
    by (simp only: loadFromEmbed_example_main simp_thms)
qed

text \<open>
  For a path with an internal prefix and no embedded entry under its base name, the
  error is the one made by \<open>loadFromEmbed\<close>; its message is \<open>doc-util/<base> does not
  exist\<close> for every base name other than \<open>"."\<close> and \<open>".."\<close>.
\<close>

lemma Import_missing_internal_resource:
  assumes "p \<in> set docUtilPathPrefixes" and "HasPrefix importedPath p"
    and "embedded i (Base importedPath) = None"
  shows "Import lib i importedFrom importedPath =
           ((zero_Contents,
             ''<internal>/'' @ Join [''doc-util'', Base importedPath],
             Some (Errorf (Join [''doc-util'', Base importedPath] @ '' does not exist''))),
            [])
         \<and> (Base importedPath \<noteq> ''.'' \<and> Base importedPath \<noteq> ''..'' \<longrightarrow>
              Join [''doc-util'', Base importedPath] = ''doc-util/'' @ Base importedPath)"
proof -
  from assms(1,2) have m: "\<exists>p\<in>set docUtilPathPrefixes. HasPrefix importedPath p"
    by blast
  have "loadFromEmbed i importedPath =
          (zero_Contents,
           ''<internal>/'' @ Join [''doc-util'', Base importedPath],
           Some (Errorf (Join [''doc-util'', Base importedPath] @ '' does not exist'')))"
    using assms(3) by (simp add: loadFromEmbed_def Let_def)
  with m have r: "Import lib i importedFrom importedPath =
           ((zero_Contents,
             ''<internal>/'' @ Join [''doc-util'', Base importedPath],
             Some (Errorf (Join [''doc-util'', Base importedPath] @ '' does not exist''))),
            [])"
    by (simp only: Import_def Import_from_match)
  from assms(1,2) have b: "Base importedPath \<noteq> []"
      "\<forall>c\<in>set (Base importedPath). \<not> IsPathSeparator c"
    using Base_no_sep [OF prefix_has_name_char] by blast+
  have "Base importedPath \<noteq> ''.'' \<and> Base importedPath \<noteq> ''..'' \<longrightarrow>
          Join [''doc-util'', Base importedPath] = ''doc-util/'' @ Base importedPath"
    using Join_doc_util [OF b] by blast
  with r show ?thesis
    by blast
qed

text \<open>
  C3 (the code departs from it): for the import paths \<open>doc-util/..\<close> and \<open>doc-util/.\<close>,
  which start with an internal prefix and have no embedded resource, the error that
  \<open>Import\<close> returns reads \<open>. does not exist\<close> and \<open>doc-util does not exist\<close>: the message
  is built from \<open>filepath.Join("doc-util", base)\<close>, and cleaning the joined path removes
  the base names \<open>".."\<close> and \<open>"."\<close>, so the message does not name the resource asked for.
\<close>

theorem Import_dot_names_lose_the_resource_name:
  "Import example_disk example_importer ''/src/main.jsonnet'' ''doc-util/..'' =
     ((zero_Contents, ''<internal>/.'', Some (Errorf ''. does not exist'')), [])
   \<and> Import example_disk example_importer ''/src/main.jsonnet'' ''doc-util/.'' =
     ((zero_Contents, ''<internal>/doc-util'', Some (Errorf ''doc-util does not exist'')), [])"
proof -
  have "\<exists>p\<in>set docUtilPathPrefixes. HasPrefix ''doc-util/..'' p"
    using doc_util_prefix HasPrefix_doc_util_dotdot by blast
  then have a: "Import example_disk example_importer ''/src/main.jsonnet'' ''doc-util/..'' =
     ((zero_Contents, ''<internal>/.'', Some (Errorf ''. does not exist'')), [])"
    by (simp only: Import_def Import_from_match loadFromEmbed_example_dotdot)
  have "\<exists>p\<in>set docUtilPathPrefixes. HasPrefix ''doc-util/.'' p"
    using doc_util_prefix HasPrefix_doc_util_dot by blast
  then have "Import example_disk example_importer ''/src/main.jsonnet'' ''doc-util/.'' =
     ((zero_Contents, ''<internal>/doc-util'', Some (Errorf ''doc-util does not exist'')), [])"
    by (simp only: Import_def Import_from_match loadFromEmbed_example_dot)
  with a show ?thesis
    by blast
qed

text \<open>
  C4: when \<open>importedPath\<close> starts with one of \<open>docUtilPathPrefixes\<close>, the importer that
  \<open>newImporter\<close> built looks the embedded store up under the base name of \<open>importedPath\<close>
  and nothing else of the path; the store answers for the base names \<open>main.libsonnet\<close>
  and \<open>render.libsonnet\<close>. Whenever the import is resolved (no error is returned), the
  location returned with the content is \<open><internal>/doc-util/<base>\<close>. Every location
  returned, also beside an error, starts with \<open><internal>/\<close>.
\<close>

theorem Import_internal_key_and_location:
  assumes "p \<in> set docUtilPathPrefixes" and "HasPrefix importedPath p"
    and "newImporter opts = Inr i"
  shows "fst (Import lib i importedFrom importedPath) =
           (case embedded i (Base importedPath) of
              None \<Rightarrow>
                (zero_Contents,
                 ''<internal>/'' @ Join [''doc-util'', Base importedPath],
                 Some (Errorf (Join [''doc-util'', Base importedPath] @ '' does not exist'')))
            | Some conts \<Rightarrow>
                (conts, ''<internal>/doc-util/'' @ Base importedPath, None))
         \<and> (embedded i (Base importedPath) \<noteq> None) =
             (Base importedPath = ''main.libsonnet'' \<or> Base importedPath = ''render.libsonnet'')
         \<and> (\<forall>conts location.
               fst (Import lib i importedFrom importedPath) = (conts, location, None) \<longrightarrow>
                 location = ''<internal>/doc-util/'' @ Base importedPath
                 \<and> embedded i (Base importedPath) = Some conts)
         \<and> HasPrefix (foundAt (fst (Import lib i importedFrom importedPath))) ''<internal>/''"
proof -
  from assms(1,2) have m: "\<exists>p\<in>set docUtilPathPrefixes. HasPrefix importedPath p"
    by blast
  then have r: "fst (Import lib i importedFrom importedPath) = loadFromEmbed i importedPath"
    by (simp add: Import_def Import_from_match)
  note keys = newImporter_keys [OF assms(3), of "Base importedPath"]
  have k: "loadFromEmbed i importedPath =
           (case embedded i (Base importedPath) of
              None \<Rightarrow>
                (zero_Contents,
                 ''<internal>/'' @ Join [''doc-util'', Base importedPath],
                 Some (Errorf (Join [''doc-util'', Base importedPath] @ '' does not exist'')))
            | Some conts \<Rightarrow>
                (conts, ''<internal>/doc-util/'' @ Base importedPath, None))"
  proof (cases "embedded i (Base importedPath)")
    case None
    then show ?thesis
      by (simp add: loadFromEmbed_def Let_def)
  next
    case (Some conts)
    then have "embedded i (Base importedPath) \<noteq> None"
      by simp
    with keys have "Base importedPath = ''main.libsonnet'' \<or> Base importedPath = ''render.libsonnet''"
      by blast
    then have j: "Join [''doc-util'', Base importedPath] = ''doc-util/'' @ Base importedPath"
      by (rule Join_doc_util_bundled)
    have "loadFromEmbed i importedPath =
            (conts, ''<internal>/'' @ Join [''doc-util'', Base importedPath], None)"
      using Some by (simp add: loadFromEmbed_def Let_def del: Join.simps)
    then have "loadFromEmbed i importedPath =
            (conts, ''<internal>/'' @ (''doc-util/'' @ Base importedPath), None)"
      by (simp only: j)
    then have "loadFromEmbed i importedPath =
            (conts, ''<internal>/doc-util/'' @ Base importedPath, None)"
      by simp
    then show ?thesis
      by (simp only: Some option.case)
  qed
  have s: "\<forall>conts location.
               loadFromEmbed i importedPath = (conts, location, None) \<longrightarrow>
                 location = ''<internal>/doc-util/'' @ Base importedPath
                 \<and> embedded i (Base importedPath) = Some conts"
  proof (cases "embedded i (Base importedPath)")
    case None
    then show ?thesis
      unfolding k by simp
  next
    case (Some c)
    then show ?thesis
      unfolding k by auto
  qed
  have l: "HasPrefix (foundAt (loadFromEmbed i importedPath)) ''<internal>/''"
    unfolding foundAt_loadFromEmbed by (simp add: HasPrefix_def)
  show ?thesis
    unfolding r by (intro conjI) (fact k, fact keys, fact s, fact l)
qed

theorem Import_internal_key_and_location_witness:
  "''./render.libsonnet'' \<in> set docUtilPathPrefixes
   \<and> HasPrefix ''./render.libsonnet'' ''./render.libsonnet''
   \<and> newImporter example_opts = Inr example_importer
   \<and> Base ''./render.libsonnet'' = ''render.libsonnet''
   \<and> fst (Import example_disk example_importer ''/src/main.jsonnet'' ''./render.libsonnet'')
       = (MakeContents ''{ render: 2 }'', ''<internal>/doc-util/render.libsonnet'', None)"
proof -
  have p: "''./render.libsonnet'' \<in> set docUtilPathPrefixes"
    by (simp add: docUtilPathPrefixes_def)
  have h: "HasPrefix ''./render.libsonnet'' ''./render.libsonnet''"
    by (simp add: HasPrefix_def)
  have b: "Base ''./render.libsonnet'' = ''render.libsonnet''"
    by (simp add: Base_def IsPathSeparator_def Let_def)
  have e: "embedded example_importer ''render.libsonnet'' = Some (MakeContents ''{ render: 2 }'')"
    by (simp add: example_importer_def)
  from Import_internal_key_and_location [OF p h newImporter_example,
      of example_disk "''/src/main.jsonnet''", THEN conjunct1]
  have "fst (Import example_disk example_importer ''/src/main.jsonnet'' ''./render.libsonnet'')
       = (MakeContents ''{ render: 2 }'', ''<internal>/doc-util/render.libsonnet'', None)"
    unfolding b e by simp
  with p h b newImporter_example show ?thesis
    by (simp only: simp_thms)
qed

text \<open>
  C6, as amended: when \<open>importedPath\<close> starts with none of \<open>docUtilPathPrefixes\<close>, the
  importer that \<open>newImporter\<close> built from \<open>opts\<close> makes one call to the file importer,
  whose search paths are \<open>opts.JPath\<close>, with \<open>importedFrom\<close> and \<open>importedPath\<close> as it
  received them, and returns what that call returns; this holds for any file importer
  \<open>lib\<close>. With the file importer of go-jsonnet over a disk \<open>files\<close>, the result is: the
  file in the directory of the importing file when there is one; otherwise the file of
  the last search path that holds one (search path \<open>k\<close>, no search path after it holding
  the file); and the library's no-match error when no directory holds the file.
\<close>

theorem Import_other_paths_delegate:
  assumes "\<not> (\<exists>p\<in>set docUtilPathPrefixes. HasPrefix importedPath p)"
    and "newImporter opts = Inr i"
  shows "Import lib i importedFrom importedPath =
           (lib \<lparr>JPaths = JPath opts\<rparr> importedFrom importedPath,
            [FiImport \<lparr>JPaths = JPath opts\<rparr> importedFrom importedPath])
         \<and> (\<forall>content.
               files (absPath (fst (Split importedFrom)) importedPath) = Some (Inr content) \<longrightarrow>
               fst (Import (FileImporter_Import files) i importedFrom importedPath) =
                 (MakeContents content, absPath (fst (Split importedFrom)) importedPath, None))
         \<and> (\<forall>k content.
               files (absPath (fst (Split importedFrom)) importedPath) = None
               \<and> k < length (JPath opts)
               \<and> (\<forall>j. k < j \<and> j < length (JPath opts) \<longrightarrow>
                     files (absPath (JPath opts ! j) importedPath) = None)
               \<and> files (absPath (JPath opts ! k) importedPath) = Some (Inr content) \<longrightarrow>
               fst (Import (FileImporter_Import files) i importedFrom importedPath) =
                 (MakeContents content, absPath (JPath opts ! k) importedPath, None))
         \<and> (files (absPath (fst (Split importedFrom)) importedPath) = None
             \<and> (\<forall>j. j < length (JPath opts) \<longrightarrow>
                   files (absPath (JPath opts ! j) importedPath) = None) \<longrightarrow>
             fst (Import (FileImporter_Import files) i importedFrom importedPath) =
               (zero_Contents, [], Some (ImportNoMatch importedPath)))"
proof -
  from assms(2) have f: "fi i = \<lparr>JPaths = JPath opts\<rparr>"
    by (auto simp: newImporter_def split: sum.splits)
  from assms(1) have n: "\<forall>p\<in>set docUtilPathPrefixes. \<not> HasPrefix importedPath p"
    by blast
  have d: "Import l i importedFrom importedPath =
             (l \<lparr>JPaths = JPath opts\<rparr> importedFrom importedPath,
              [FiImport \<lparr>JPaths = JPath opts\<rparr> importedFrom importedPath])" for l
    using n f by (simp add: Import_def Import_from_no_match)
  have r: "fst (Import (FileImporter_Import files) i importedFrom importedPath) =
             FileImporter_Import files \<lparr>JPaths = JPath opts\<rparr> importedFrom importedPath"
    by (simp only: d fst_conv)
  have local: "\<forall>content.
               files (absPath (fst (Split importedFrom)) importedPath) = Some (Inr content) \<longrightarrow>
               FileImporter_Import files \<lparr>JPaths = JPath opts\<rparr> importedFrom importedPath =
                 (MakeContents content, absPath (fst (Split importedFrom)) importedPath, None)"
    using FileImporter_Import_local by blast
  have last: "\<forall>k content.
               files (absPath (fst (Split importedFrom)) importedPath) = None
               \<and> k < length (JPath opts)
               \<and> (\<forall>j. k < j \<and> j < length (JPath opts) \<longrightarrow>
                     files (absPath (JPath opts ! j) importedPath) = None)
               \<and> files (absPath (JPath opts ! k) importedPath) = Some (Inr content) \<longrightarrow>
               FileImporter_Import files \<lparr>JPaths = JPath opts\<rparr> importedFrom importedPath =
                 (MakeContents content, absPath (JPath opts ! k) importedPath, None)"
    using FileImporter_Import_last_hit [of files importedFrom importedPath _ "\<lparr>JPaths = JPath opts\<rparr>"]
    by simp
  have none: "files (absPath (fst (Split importedFrom)) importedPath) = None
             \<and> (\<forall>j. j < length (JPath opts) \<longrightarrow>
                   files (absPath (JPath opts ! j) importedPath) = None) \<longrightarrow>
             FileImporter_Import files \<lparr>JPaths = JPath opts\<rparr> importedFrom importedPath =
               (zero_Contents, [], Some (ImportNoMatch importedPath))"
    using tryJPaths_no_hit [of "length (JPath opts)" files "JPath opts" importedPath]
    by (simp add: FileImporter_Import_def tryPath_def)
  show ?thesis
    unfolding r by (intro conjI) (fact d, fact local, fact last, fact none)
qed

theorem Import_other_paths_delegate_witness:
  "\<not> (\<exists>p\<in>set docUtilPathPrefixes. HasPrefix ''lib/x.libsonnet'' p)
   \<and> newImporter example_opts = Inr example_importer
   \<and> JPath example_opts = [''/a'', ''/b'']
   \<and> example_files (absPath (fst (Split ''/src/main.jsonnet'')) ''lib/x.libsonnet'') = None
   \<and> example_files (absPath ''/b'' ''lib/x.libsonnet'') = Some (Inr ''{ b: 2 }'')
   \<and> fst (Import (FileImporter_Import example_files) example_importer
            ''/src/main.jsonnet'' ''lib/x.libsonnet'') =
       (MakeContents ''{ b: 2 }'', ''/b/lib/x.libsonnet'', None)
   \<and> snd (Import (FileImporter_Import example_files) example_importer
            ''/src/main.jsonnet'' ''lib/x.libsonnet'') =
       [FiImport \<lparr>JPaths = [''/a'', ''/b'']\<rparr> ''/src/main.jsonnet'' ''lib/x.libsonnet'']"
proof -
  note t = Import_other_paths_delegate [OF lib_x_no_prefix newImporter_example,
      of "FileImporter_Import example_files" "''/src/main.jsonnet''" example_files]
  from t have "snd (Import (FileImporter_Import example_files) example_importer
            ''/src/main.jsonnet'' ''lib/x.libsonnet'') =
       [FiImport \<lparr>JPaths = JPath example_opts\<rparr> ''/src/main.jsonnet'' ''lib/x.libsonnet'']"
    by simp
  then have c: "snd (Import (FileImporter_Import example_files) example_importer
            ''/src/main.jsonnet'' ''lib/x.libsonnet'') =
       [FiImport \<lparr>JPaths = [''/a'', ''/b'']\<rparr> ''/src/main.jsonnet'' ''lib/x.libsonnet'']"
    by (simp only: JPath_example_opts)
  have k: "(1::nat) < length (JPath example_opts)"
    by (simp add: JPath_example_opts)
  have after: "\<forall>j. 1 < j \<and> j < length (JPath example_opts) \<longrightarrow>
           example_files (absPath (JPath example_opts ! j) ''lib/x.libsonnet'') = None"
  proof (intro allI impI)
    fix j :: nat
    assume "1 < j \<and> j < length (JPath example_opts)"
    then have "1 < j \<and> j < 2"
      by (simp add: JPath_example_opts)
    then have False
      by arith
    then show "example_files (absPath (JPath example_opts ! j) ''lib/x.libsonnet'') = None"
      by blast
  qed
  have n1: "JPath example_opts ! 1 = ''/b''"
    by (simp add: JPath_example_opts)
  have hit: "example_files (absPath (JPath example_opts ! 1) ''lib/x.libsonnet'') =
               Some (Inr ''{ b: 2 }'')"
    unfolding n1 by (rule example_b_copy [THEN conjunct1])
  from t have "\<forall>k content.
               example_files (absPath (fst (Split ''/src/main.jsonnet'')) ''lib/x.libsonnet'') = None
               \<and> k < length (JPath example_opts)
               \<and> (\<forall>j. k < j \<and> j < length (JPath example_opts) \<longrightarrow>
                     example_files (absPath (JPath example_opts ! j) ''lib/x.libsonnet'') = None)
               \<and> example_files (absPath (JPath example_opts ! k) ''lib/x.libsonnet'') =
                    Some (Inr content) \<longrightarrow>
               fst (Import (FileImporter_Import example_files) example_importer
                      ''/src/main.jsonnet'' ''lib/x.libsonnet'') =
                 (MakeContents content, absPath (JPath example_opts ! k) ''lib/x.libsonnet'', None)"
    by blast
  with example_local_missing k after hit
  have "fst (Import (FileImporter_Import example_files) example_importer
                      ''/src/main.jsonnet'' ''lib/x.libsonnet'') =
          (MakeContents ''{ b: 2 }'', absPath (JPath example_opts ! 1) ''lib/x.libsonnet'', None)"
    by blast
  moreover have "absPath (JPath example_opts ! 1) ''lib/x.libsonnet'' = ''/b/lib/x.libsonnet''"
    unfolding n1 by (rule example_b_copy [THEN conjunct2])
  ultimately have r: "fst (Import (FileImporter_Import example_files) example_importer
                      ''/src/main.jsonnet'' ''lib/x.libsonnet'') =
          (MakeContents ''{ b: 2 }'', ''/b/lib/x.libsonnet'', None)"
    by (simp only:)
  from lib_x_no_prefix newImporter_example JPath_example_opts example_local_missing
    example_b_copy r c
  show ?thesis
    by (intro conjI) blast+
qed

theorem Import_first_directory_counterexample:
  "\<not> (\<exists>p\<in>set docUtilPathPrefixes. HasPrefix ''lib/x.libsonnet'' p)
   \<and> newImporter example_opts = Inr example_importer
   \<and> JPath example_opts = [''/a'', ''/b'']
   \<and> example_files ''/a/lib/x.libsonnet'' = Some (Inr ''{ a: 1 }'')
   \<and> example_files ''/b/lib/x.libsonnet'' = Some (Inr ''{ b: 2 }'')
   \<and> fst (Import (FileImporter_Import example_files) example_importer
            ''/src/main.jsonnet'' ''lib/x.libsonnet'') =
       (MakeContents ''{ b: 2 }'', ''/b/lib/x.libsonnet'', None)
   \<and> fst (Import (FileImporter_Import example_files) example_importer
            ''/src/main.jsonnet'' ''lib/x.libsonnet'') \<noteq>
       (MakeContents ''{ a: 1 }'', ''/a/lib/x.libsonnet'', None)"
proof -
  have "\<forall>p\<in>set docUtilPathPrefixes. \<not> HasPrefix ''lib/x.libsonnet'' p"
    using lib_x_no_prefix by blast
  then have "fst (Import (FileImporter_Import example_files) example_importer
            ''/src/main.jsonnet'' ''lib/x.libsonnet'') =
       example_disk (fi example_importer) ''/src/main.jsonnet'' ''lib/x.libsonnet''"
    by (simp add: Import_def Import_from_no_match example_disk_def)
  also have "fi example_importer = \<lparr>JPaths = [''/a'', ''/b'']\<rparr>"
    by (simp add: example_importer_def)
  finally have r: "fst (Import (FileImporter_Import example_files) example_importer
            ''/src/main.jsonnet'' ''lib/x.libsonnet'') =
       (MakeContents ''{ b: 2 }'', ''/b/lib/x.libsonnet'', None)"
    by (simp only: example_disk_lib_x)
  have ne: "(MakeContents ''{ b: 2 }'', ''/b/lib/x.libsonnet'', None :: go_error option) \<noteq>
       (MakeContents ''{ a: 1 }'', ''/a/lib/x.libsonnet'', None)"
    by simp
  from lib_x_no_prefix newImporter_example JPath_example_opts example_files_copies r ne
  show ?thesis
    by (simp only: simp_thms)
qed

section \<open>The evaluator session\<close>

text \<open>
  \<open>newVM\<close> returns a VM exactly when both doc-util scripts can be read
  (\<open>newVM_Inr_iff\<close>). That VM has one external variable, \<open>main\<close>, bound as code to the
  text \<open>(import "\<close> followed by the entry-file path as given and \<open>")\<close>, and its importer
  is the importer that \<open>newImporter\<close> built from the options, in place of the file
  importer \<open>MakeVM\<close> starts with. Every evaluation that \<open>Extract\<close> and \<open>RenderWithJsonnet\<close>
  start runs on a VM with this importer and this binding of \<open>main\<close>.
\<close>

lemma newVM_session:
  assumes "newVM mainFName opts = Inr vm"
  shows "vm_ext vm =
           [''main'' \<mapsto> ExtCodeText (''(import '' @ [dquote] @ mainFName @ [dquote] @ '')'')]
         \<and> (\<exists>imp. newImporter opts = Inr imp \<and> vm_importer vm = DocUtilImporter imp)
         \<and> (\<forall>c\<in>set (snd (Extract evaluate mainFName opts)).
               \<exists>snippet. c = Evaluate vm ''load.libsonnet'' snippet)
         \<and> (\<forall>c\<in>set (snd (RenderWithJsonnet evaluate unmarshal_out mainFName opts)).
               \<exists>vm' snippet. c = Evaluate vm' ''render.libsonnet'' snippet
                 \<and> vm_importer vm' = vm_importer vm
                 \<and> vm_ext vm' ''main'' = vm_ext vm ''main'')"
proof -
  from assms obtain imp where i: "newImporter opts = Inr imp"
    and v: "vm = ExtCode (VM_Importer MakeVM (DocUtilImporter imp)) ''main''
                   (''(import '' @ [dquote] @ mainFName @ [dquote] @ '')'')"
    by (auto simp: newVM_def split: sum.splits)
  from v have e: "vm_ext vm =
           [''main'' \<mapsto> ExtCodeText (''(import '' @ [dquote] @ mainFName @ [dquote] @ '')'')]"
    by (simp add: ExtCode_def VM_Importer_def MakeVM_def)
  from v have "vm_importer vm = DocUtilImporter imp"
    by (simp add: ExtCode_def VM_Importer_def MakeVM_def)
  with i have m: "\<exists>imp. newImporter opts = Inr imp \<and> vm_importer vm = DocUtilImporter imp"
    by blast
  from e m Extract_calls [OF assms] RenderWithJsonnet_calls [OF assms] show ?thesis
    by blast
qed

text \<open>
  C7 (the code departs from it): the entry-file path is copied into the import expression
  as it is, without escaping. For the file name \<open>a"b\<close> the text bound to \<open>main\<close> is
  \<open>(import "a"b")\<close>, which is not an import expression, and for the file name
  \<open>x") + (import "/etc/passwd\<close> it is \<open>(import "x") + (import "/etc/passwd")\<close>, which
  imports two other files: in neither case does \<open>main\<close> point at the entry file.
\<close>

theorem newVM_entry_file_name_is_not_escaped:
  "newVM quoted_name example_opts =
     Inr \<lparr>vm_importer = DocUtilImporter example_importer,
          vm_ext = [''main'' \<mapsto>
                     ExtCodeText (''(import '' @ [dquote] @ ''a'' @ [dquote] @ ''b'' @ [dquote]
                                  @ '')'')]\<rparr>
   \<and> newVM two_imports_name example_opts =
     Inr \<lparr>vm_importer = DocUtilImporter example_importer,
          vm_ext = [''main'' \<mapsto>
                     ExtCodeText (''(import '' @ [dquote] @ ''x'' @ [dquote] @ '') + (import ''
                                  @ [dquote] @ ''/etc/passwd'' @ [dquote] @ '')'')]\<rparr>"
  using newVM_quoted_name newVM_two_imports_name by (rule conjI)

section \<open>The embedded resources\<close>

text \<open>
  C5, as amended: \<open>newImporter\<close>, and \<open>newVM\<close> through it, returns an error exactly when
  \<open>doc-util/main.libsonnet\<close> or \<open>doc-util/render.libsonnet\<close> cannot be read from the
  embedded file system, and the importer returned otherwise holds the content of both.
  The driver scripts are not read there. \<open>Extract\<close> returns an error without starting an
  evaluation exactly when \<open>load.libsonnet\<close> or one of the two doc-util scripts is
  missing, and otherwise evaluates \<open>load.libsonnet\<close>, whether or not \<open>render.libsonnet\<close> is
  there; \<open>RenderWithJsonnet\<close> does the same with \<open>render.libsonnet\<close>, whether or not
  \<open>load.libsonnet\<close> is there.
\<close>

theorem embedded_resources_are_read_per_entry_point:
  "((\<exists>e. newImporter opts = Inl e) =
      (EmbeddedFS opts ''doc-util/main.libsonnet'' = None
       \<or> EmbeddedFS opts ''doc-util/render.libsonnet'' = None))
   \<and> ((\<exists>e. newVM filename opts = Inl e) = (\<exists>e. newImporter opts = Inl e))
   \<and> (\<forall>i. newImporter opts = Inr i \<longrightarrow>
         (\<exists>dmain drender.
            EmbeddedFS opts ''doc-util/main.libsonnet'' = Some dmain
            \<and> EmbeddedFS opts ''doc-util/render.libsonnet'' = Some drender
            \<and> embedded i = [''main.libsonnet'' \<mapsto> MakeContents dmain,
                             ''render.libsonnet'' \<mapsto> MakeContents drender]))
   \<and> ((\<exists>e. Extract evaluate filename opts = (Inl e, [])) =
        (EmbeddedFS opts ''load.libsonnet'' = None \<or> (\<exists>e. newImporter opts = Inl e)))
   \<and> (\<forall>load vm.
         EmbeddedFS opts ''load.libsonnet'' = Some load \<and> newVM filename opts = Inr vm \<longrightarrow>
         Extract evaluate filename opts =
           (evaluate vm ''load.libsonnet'' load, [Evaluate vm ''load.libsonnet'' load]))
   \<and> ((\<exists>e. RenderWithJsonnet evaluate unmarshal_out filename opts = ((None, Some e), [])) =
        (EmbeddedFS opts ''render.libsonnet'' = None \<or> (\<exists>e. newImporter opts = Inl e)))
   \<and> (\<forall>render vm.
         EmbeddedFS opts ''render.libsonnet'' = Some render \<and> newVM filename opts = Inr vm \<longrightarrow>
         snd (RenderWithJsonnet evaluate unmarshal_out filename opts) =
           [Evaluate
              (ExtCode vm ''d''
                 (''(import '' @ [dquote] @ ''doc-util/main.libsonnet'' @ [dquote] @ '')''))
              ''render.libsonnet'' render])"
proof -
  have eager: "\<forall>i. newImporter opts = Inr i \<longrightarrow>
         (\<exists>dmain drender.
            EmbeddedFS opts ''doc-util/main.libsonnet'' = Some dmain
            \<and> EmbeddedFS opts ''doc-util/render.libsonnet'' = Some drender
            \<and> embedded i = [''main.libsonnet'' \<mapsto> MakeContents dmain,
                             ''render.libsonnet'' \<mapsto> MakeContents drender])"
    using newImporter_Inr by fastforce
  have ex: "\<forall>load vm.
         EmbeddedFS opts ''load.libsonnet'' = Some load \<and> newVM filename opts = Inr vm \<longrightarrow>
         Extract evaluate filename opts =
           (evaluate vm ''load.libsonnet'' load, [Evaluate vm ''load.libsonnet'' load])"
    using Extract_goes_on by blast
  have re: "\<forall>render vm.
         EmbeddedFS opts ''render.libsonnet'' = Some render \<and> newVM filename opts = Inr vm \<longrightarrow>
         snd (RenderWithJsonnet evaluate unmarshal_out filename opts) =
           [Evaluate
              (ExtCode vm ''d''
                 (''(import '' @ [dquote] @ ''doc-util/main.libsonnet'' @ [dquote] @ '')''))
              ''render.libsonnet'' render]"
    using RenderWithJsonnet_goes_on by blast
  show ?thesis
    by (intro conjI)
      (fact newImporter_Inl, fact newVM_Inl_iff, fact eager, fact Extract_fails_early_iff,
       fact ex, fact RenderWithJsonnet_fails_early_iff, fact re)
qed

theorem embedded_resources_are_read_per_entry_point_witness:
  "EmbeddedFS example_opts_without_load ''load.libsonnet'' = None
   \<and> (\<exists>e. Extract echo_evaluator ''/src/main.jsonnet'' example_opts_without_load = (Inl e, []))
   \<and> Extract echo_evaluator ''/src/main.jsonnet'' example_opts_without_load =
       (Inl (ReadFileError ''load.libsonnet''), [])
   \<and> EmbeddedFS example_opts_without_load ''render.libsonnet'' = Some ''std.extVar(d)''
   \<and> newVM ''/src/main.jsonnet'' example_opts_without_load = Inr example_vm
   \<and> snd (RenderWithJsonnet echo_evaluator empty_output_decoder ''/src/main.jsonnet''
            example_opts_without_load) =
       [Evaluate
          (ExtCode example_vm ''d''
             (''(import '' @ [dquote] @ ''doc-util/main.libsonnet'' @ [dquote] @ '')''))
          ''render.libsonnet'' ''std.extVar(d)'']"
proof -
  note t = embedded_resources_are_read_per_entry_point
    [of example_opts_without_load "''/src/main.jsonnet''" echo_evaluator empty_output_decoder]
  from t load_missing
  have a: "\<exists>e. Extract echo_evaluator ''/src/main.jsonnet'' example_opts_without_load = (Inl e, [])"
    by blast
  from t render_present_without_load newVM_without_load
  have b: "snd (RenderWithJsonnet echo_evaluator empty_output_decoder ''/src/main.jsonnet''
            example_opts_without_load) =
       [Evaluate
          (ExtCode example_vm ''d''
             (''(import '' @ [dquote] @ ''doc-util/main.libsonnet'' @ [dquote] @ '')''))
          ''render.libsonnet'' ''std.extVar(d)'']"
    by blast
  show ?thesis
    by (intro conjI)
      (fact load_missing, fact a, fact Extract_without_load, fact render_present_without_load,
       fact newVM_without_load, fact b)
qed

theorem construction_without_driver_counterexample:
  "EmbeddedFS example_opts_without_load ''load.libsonnet'' = None
   \<and> newImporter example_opts_without_load = Inr example_importer
   \<and> newVM ''/src/main.jsonnet'' example_opts_without_load = Inr example_vm
   \<and> snd (RenderWithJsonnet echo_evaluator empty_output_decoder ''/src/main.jsonnet''
            example_opts_without_load) =
       [Evaluate
          (ExtCode example_vm ''d''
             (''(import '' @ [dquote] @ ''doc-util/main.libsonnet'' @ [dquote] @ '')''))
          ''render.libsonnet'' ''std.extVar(d)'']"
  using load_missing newImporter_without_load newVM_without_load RenderWithJsonnet_without_load
  by (simp only: simp_thms)

end
